theory Spec2Isabelle
  imports Main
begin

section \<open>Data model of the User schema\<close>

text \<open>
  Dates are milliseconds since the epoch, as \<open>Date.now()\<close> returns them. A schema path
  without a stored value (\<open>undefined\<close>, or removed by \<open>$unset\<close>) is \<open>None\<close>. Only the
  paths the authentication code reads or writes are kept; profile, settings and the social
  counters are never touched by it. One request reads the clock as one instant \<open>now\<close>.
  Strings are taken as ASCII.
\<close>

type_synonym timestamp = int

record refresh_token_record =
  token :: string
  createdAt :: timestamp
  expiresAt :: timestamp

text \<open>The document as the store holds it.\<close>

record user =
  uid :: nat
  username :: string
  email :: string
  password :: string
  role :: string
  emailVerificationToken :: "string option"
  emailVerificationExpire :: "timestamp option"
  resetPasswordToken :: "string option"
  resetPasswordExpire :: "timestamp option"
  loginAttempts :: "int option"
  lockUntil :: "timestamp option"
  refreshTokens :: "refresh_token_record list"
  isActive :: bool
  emailVerified :: bool
  lastLogin :: "timestamp option"

text \<open>The collection is the list of its documents, in the order \<open>findOne\<close> scans them.\<close>

type_synonym db = "user list"

subsection \<open>Loaded documents\<close>

text \<open>
  The document a query hands to the code carries the selected paths only: a path that was
  not selected reads \<open>undefined\<close>, like a path without a stored value. The instance
  methods of the schema work on such a document.
\<close>

record document =
  doc_id :: nat
  doc_username :: "string option"
  doc_email :: "string option"
  doc_password :: "string option"
  doc_role :: "string option"
  doc_emailVerificationToken :: "string option"
  doc_emailVerificationExpire :: "timestamp option"
  doc_resetPasswordToken :: "string option"
  doc_resetPasswordExpire :: "timestamp option"
  doc_loginAttempts :: "int option"
  doc_lockUntil :: "timestamp option"
  doc_refreshTokens :: "refresh_token_record list option"
  doc_isActive :: "bool option"
  doc_emailVerified :: "bool option"
  doc_lastLogin :: "timestamp option"

text \<open>Hydration applies the schema default 0 to an absent \<open>loginAttempts\<close>.\<close>

definition attempts :: "user \<Rightarrow> int" where
  "attempts u = (case loginAttempts u of None \<Rightarrow> 0 | Some n \<Rightarrow> n)"

text \<open>
  A query without \<open>select\<close> loads every path but \<open>password\<close>, which the schema declares
  \<open>select: false\<close>.
\<close>

definition hydrate :: "user \<Rightarrow> document" where
  "hydrate u =
     \<lparr>doc_id = uid u, doc_username = Some (username u), doc_email = Some (email u),
      doc_password = None, doc_role = Some (role u),
      doc_emailVerificationToken = emailVerificationToken u,
      doc_emailVerificationExpire = emailVerificationExpire u,
      doc_resetPasswordToken = resetPasswordToken u,
      doc_resetPasswordExpire = resetPasswordExpire u,
      doc_loginAttempts = Some (attempts u), doc_lockUntil = lockUntil u,
      doc_refreshTokens = Some (refreshTokens u), doc_isActive = Some (isActive u),
      doc_emailVerified = Some (emailVerified u), doc_lastLogin = lastLogin u\<rparr>"

text \<open>
  The query of \<open>getAuthenticatedUser\<close> selects with the string
  \<open>'+password + loginAttempts +lockUntil'\<close>. Its words are \<open>+password\<close>, \<open>+\<close>,
  \<open>loginAttempts\<close> and \<open>+lockUntil\<close>. The word \<open>loginAttempts\<close>, without a sign, makes the
  projection inclusive; \<open>+password\<close> adds the path that the schema excludes; a plus sign in
  front of \<open>lockUntil\<close>, which the schema does not exclude, adds nothing to an inclusive
  projection. The document loaded carries \<open>_id\<close>, \<open>password\<close> and \<open>loginAttempts\<close>.
\<close>

definition hydrateAuth :: "user \<Rightarrow> document" where
  "hydrateAuth u =
     \<lparr>doc_id = uid u, doc_username = None, doc_email = None,
      doc_password = Some (password u), doc_role = None,
      doc_emailVerificationToken = None, doc_emailVerificationExpire = None,
      doc_resetPasswordToken = None, doc_resetPasswordExpire = None,
      doc_loginAttempts = Some (attempts u), doc_lockUntil = None,
      doc_refreshTokens = None, doc_isActive = None,
      doc_emailVerified = None, doc_lastLogin = None\<rparr>"

subsection \<open>Configuration and library calls\<close>

text \<open>
  The process environment (already parsed by \<open>parseInt\<close> where the code does so;
  \<open>LOCKOUT_TIME_text\<close> is the variable as the message template prints it) and the library
  functions the model calls. A library call that throws is \<open>Throws\<close>.
\<close>

datatype 'a js_try = Returns 'a | Throws

record env =
  JWT_SECRET :: string
  JWT_EXPIRE :: int
  JWT_ISSUER :: string
  JWT_AUDIENCE :: string
  RESET_PASSWORD_EXPIRE :: int
  EMAIL_VERIFICATION_EXPIRE :: int
  MAX_LOGIN_ATTEMPTS :: int
  LOCKOUT_TIME :: int
  LOCKOUT_TIME_text :: string
  bcrypt_compare :: "string \<Rightarrow> string \<Rightarrow> bool js_try"
  bcrypt_hash :: "string \<Rightarrow> string js_try"
  sha256 :: "string \<Rightarrow> string"
  schema_validate :: "document \<Rightarrow> bool"

subsection \<open>Queries and updates\<close>

definition findOne :: "(user \<Rightarrow> bool) \<Rightarrow> db \<Rightarrow> user option" where
  "findOne filter_p d = find filter_p d"

definition findById :: "nat \<Rightarrow> db \<Rightarrow> user option" where
  "findById i d = find (\<lambda>s. uid s = i) d"

text \<open>
  A filter value is cast with the setters of its path before it is compared: the schema
  trims \<open>username\<close>, and trims and lower-cases \<open>email\<close>.
\<close>

definition toLowerCase :: "string \<Rightarrow> string" where
  "toLowerCase s =
     map (\<lambda>c. case map_of (zip ''ABCDEFGHIJKLMNOPQRSTUVWXYZ'' ''abcdefghijklmnopqrstuvwxyz'') c of
                 None \<Rightarrow> c | Some l \<Rightarrow> l) s"

definition isSpace :: "char \<Rightarrow> bool" where
  "isSpace c = (c \<in> set [CHR '' '', CHR 0x09, CHR 0x0A, CHR 0x0B, CHR 0x0C, CHR 0x0D])"

definition trim :: "string \<Rightarrow> string" where
  "trim s = rev (dropWhile isSpace (rev (dropWhile isSpace s)))"

text \<open>The filter \<open>{ $or: [{ username: identifier }, { email: identifier }] }\<close>.\<close>

definition identifierFilter :: "string \<Rightarrow> user \<Rightarrow> bool" where
  "identifierFilter identifier s =
     (username s = trim identifier \<or> email s = toLowerCase (trim identifier))"

text \<open>\<open>this.updateOne(ops)\<close>: the operators act on the stored document with this id.\<close>

definition updateOne :: "document \<Rightarrow> (user \<Rightarrow> user) \<Rightarrow> db \<Rightarrow> db" where
  "updateOne this ops d = map (\<lambda>s. if uid s = doc_id this then ops s else s) d"

text \<open>
  \<open>this.save()\<close> writes the paths that the code has assigned since the document was
  loaded; the caller names them. A path assigned \<open>undefined\<close> is unset.
\<close>

datatype path =
  path_password | path_emailVerificationToken | path_emailVerificationExpire
| path_resetPasswordToken | path_resetPasswordExpire | path_refreshTokens
| path_lastLogin | path_emailVerified

fun write_path :: "document \<Rightarrow> path \<Rightarrow> user \<Rightarrow> user" where
  "write_path this path_password s =
     (case doc_password this of None \<Rightarrow> s | Some p \<Rightarrow> s\<lparr>password := p\<rparr>)"
| "write_path this path_emailVerificationToken s =
     s\<lparr>emailVerificationToken := doc_emailVerificationToken this\<rparr>"
| "write_path this path_emailVerificationExpire s =
     s\<lparr>emailVerificationExpire := doc_emailVerificationExpire this\<rparr>"
| "write_path this path_resetPasswordToken s =
     s\<lparr>resetPasswordToken := doc_resetPasswordToken this\<rparr>"
| "write_path this path_resetPasswordExpire s =
     s\<lparr>resetPasswordExpire := doc_resetPasswordExpire this\<rparr>"
| "write_path this path_refreshTokens s =
     (case doc_refreshTokens this of None \<Rightarrow> s | Some l \<Rightarrow> s\<lparr>refreshTokens := l\<rparr>)"
| "write_path this path_lastLogin s = s\<lparr>lastLogin := doc_lastLogin this\<rparr>"
| "write_path this path_emailVerified s =
     (case doc_emailVerified this of None \<Rightarrow> s | Some b \<Rightarrow> s\<lparr>emailVerified := b\<rparr>)"

definition save :: "path list \<Rightarrow> document \<Rightarrow> db \<Rightarrow> db" where
  "save modified this d = updateOne this (\<lambda>s. fold (write_path this) modified s) d"

section \<open>Lockout policy\<close>

definition isLocked :: "timestamp \<Rightarrow> document \<Rightarrow> bool" where
  "isLocked now this = (case doc_lockUntil this of None \<Rightarrow> False | Some l \<Rightarrow> l > now)"

text \<open>
  \<open>$inc\<close> adds to the stored counter, and to 0 when the path is absent. A comparison with
  the sum of \<open>undefined\<close> and 1 is false.
\<close>

definition incLoginAttempts :: "env \<Rightarrow> timestamp \<Rightarrow> document \<Rightarrow> db \<Rightarrow> db" where
  "incLoginAttempts e now this d =
     (if (case doc_lockUntil this of None \<Rightarrow> False | Some l \<Rightarrow> l < now)
      then updateOne this (\<lambda>s. s\<lparr>lockUntil := None, loginAttempts := Some 1\<rparr>) d
      else if (case doc_loginAttempts this of
                 None \<Rightarrow> False | Some n \<Rightarrow> n + 1 \<ge> MAX_LOGIN_ATTEMPTS e)
        then updateOne this
               (\<lambda>s. s\<lparr>loginAttempts := Some (attempts s + 1),
                        lockUntil := Some (now + LOCKOUT_TIME e * 60 * 1000)\<rparr>) d
        else updateOne this (\<lambda>s. s\<lparr>loginAttempts := Some (attempts s + 1)\<rparr>) d)"

section \<open>Password hasher\<close>

text \<open>
  \<open>matchPassword\<close> returns what \<open>bcrypt.compare\<close> returns; when the library throws, as it
  also does for a hash that is not a string, the catch block logs and the function ends
  without a return statement, so the caller receives \<open>undefined\<close>. The call always
  completes with a value.
\<close>

datatype js_value = JsBool bool | JsUndefined

fun truthy :: "js_value \<Rightarrow> bool" where
  "truthy (JsBool b) = b"
| "truthy JsUndefined = False"

definition matchPassword :: "env \<Rightarrow> document \<Rightarrow> string \<Rightarrow> js_value" where
  "matchPassword e this enteredPassword =
     (case doc_password this of
        None \<Rightarrow> JsUndefined
      | Some h \<Rightarrow>
          (case bcrypt_compare e enteredPassword h of
             Returns b \<Rightarrow> JsBool b
           | Throws \<Rightarrow> JsUndefined))"

section \<open>Authentication\<close>

datatype reason = USER_NOT_FOUND | ACCOUNT_LOCKED | INVALID_PASSWORD

text \<open>
  \<open>getAuthenticatedUser\<close> returns the collection after its updates and the object
  \<open>{ user, reason }\<close>; \<open>null\<close> is \<open>None\<close>. The returned document is the one loaded by
  the query, before the reset of the counters is written.
\<close>

definition getAuthenticatedUser ::
  "env \<Rightarrow> timestamp \<Rightarrow> string \<Rightarrow> string \<Rightarrow> db \<Rightarrow> db \<times> document option \<times> reason option" where
  "getAuthenticatedUser e now identifier pw d =
     (case findOne (identifierFilter identifier) d of
        None \<Rightarrow> (d, None, Some USER_NOT_FOUND)
      | Some s \<Rightarrow>
          (let u = hydrateAuth s
           in if isLocked now u
              then (incLoginAttempts e now u d, None, Some ACCOUNT_LOCKED)
              else if truthy (matchPassword e u pw)
                then ((if (case doc_loginAttempts u of None \<Rightarrow> False | Some n \<Rightarrow> n > 0)
                       then updateOne u (\<lambda>s. s\<lparr>loginAttempts := None, lockUntil := None\<rparr>) d
                       else d), Some u, None)
                else (incLoginAttempts e now u d, None, Some INVALID_PASSWORD)))"

text \<open>A client's consecutive login attempts \<open>(time, identifier, password)\<close>, one after the other.\<close>

fun runLogins :: "env \<Rightarrow> (timestamp \<times> string \<times> string) list \<Rightarrow> db \<Rightarrow> db" where
  "runLogins e [] d = d"
| "runLogins e ((now, identifier, pw) # rest) d =
     runLogins e rest (fst (getAuthenticatedUser e now identifier pw d))"

section \<open>Token issuer\<close>

subsection \<open>Signed access tokens\<close>

text \<open>
  The \<open>jsonwebtoken\<close> library is read symbolically: \<open>Signed c k\<close> is the serialisation
  of the claims \<open>c\<close> with a valid signature under the key \<open>k\<close>, and \<open>Malformed s\<close> is any
  other string \<open>s\<close>. A payload property that is \<open>undefined\<close> is not serialised.
  \<open>jwt_sign\<close> adds the registered claims, with times in seconds;
  \<open>jwt_verify\<close> checks the signature, then \<open>nbf\<close> and \<open>exp\<close>, and compares audience and
  issuer only when the caller passes an expected value in the options.
  \<open>JWT_EXPIRE\<close> is the \<open>expiresIn\<close> span in seconds.
\<close>

record payload =
  payload_id :: nat
  payload_email :: "string option"
  payload_username :: "string option"
  payload_role :: "string option"

record jwt_claims =
  body :: payload
  iss :: string
  aud :: string
  iat :: int
  nbf :: "int option"
  exp :: int

datatype jwt = Malformed string | Signed jwt_claims string

datatype jwt_error = TokenExpiredError | JsonWebTokenError | NotBeforeError

definition jwt_sign :: "payload \<Rightarrow> string \<Rightarrow> int \<Rightarrow> string \<Rightarrow> string \<Rightarrow> timestamp \<Rightarrow> jwt" where
  "jwt_sign p secret expiresIn issuer audience now =
     Signed \<lparr>body = p, iss = issuer, aud = audience, iat = now div 1000, nbf = None,
             exp = now div 1000 + expiresIn\<rparr> secret"

definition jwt_verify ::
  "jwt \<Rightarrow> string \<Rightarrow> string option \<Rightarrow> string option \<Rightarrow> timestamp \<Rightarrow> jwt_error + jwt_claims" where
  "jwt_verify t secret issuer audience now =
     (case t of
        Malformed s \<Rightarrow> Inl JsonWebTokenError
      | Signed c k \<Rightarrow>
          if k \<noteq> secret then Inl JsonWebTokenError
          else if (case nbf c of None \<Rightarrow> False | Some n \<Rightarrow> n > now div 1000) then Inl NotBeforeError
          else if now div 1000 \<ge> exp c then Inl TokenExpiredError
          else if (case audience of None \<Rightarrow> False | Some a \<Rightarrow> aud c \<noteq> a) then Inl JsonWebTokenError
          else if (case issuer of None \<Rightarrow> False | Some a \<Rightarrow> iss c \<noteq> a) then Inl JsonWebTokenError
          else Inr c)"

definition getSignedJwtToken :: "env \<Rightarrow> timestamp \<Rightarrow> document \<Rightarrow> jwt" where
  "getSignedJwtToken e now this =
     jwt_sign \<lparr>payload_id = doc_id this, payload_email = doc_email this,
               payload_username = doc_username this, payload_role = doc_role this\<rparr>
       (JWT_SECRET e) (JWT_EXPIRE e) (JWT_ISSUER e) (JWT_AUDIENCE e) now"

subsection \<open>Refresh tokens\<close>

text \<open>
  The value of \<open>crypto.randomBytes(n).toString('hex')\<close> is an input of the functions that
  draw it. \<open>push\<close> and \<open>filter\<close> on an array that is \<open>undefined\<close> throw a type error.
\<close>

definition generateRefreshToken ::
  "timestamp \<Rightarrow> string \<Rightarrow> document \<Rightarrow> (string \<times> document) js_try" where
  "generateRefreshToken now randomHex this =
     (case doc_refreshTokens this of
        None \<Rightarrow> Throws
      | Some l \<Rightarrow>
          Returns (randomHex,
            this\<lparr>doc_refreshTokens :=
                   Some (l @ [\<lparr>token = randomHex, createdAt = now,
                                expiresAt = now + 7 * 24 * 60 * 60 * 1000\<rparr>])\<rparr>))"

definition removeRefreshToken :: "string \<Rightarrow> document \<Rightarrow> document js_try" where
  "removeRefreshToken tokenToRemove this =
     (case doc_refreshTokens this of
        None \<Rightarrow> Throws
      | Some l \<Rightarrow>
          Returns (this\<lparr>doc_refreshTokens :=
                          Some (filter (\<lambda>tokenObj. token tokenObj \<noteq> tokenToRemove) l)\<rparr>))"

definition cleanExpiredTokens :: "timestamp \<Rightarrow> document \<Rightarrow> document" where
  "cleanExpiredTokens now this =
     (case doc_refreshTokens this of
        None \<Rightarrow> this\<lparr>doc_refreshTokens := Some []\<rparr>
      | Some l \<Rightarrow>
          this\<lparr>doc_refreshTokens := Some (filter (\<lambda>tokenObj. expiresAt tokenObj > now) l)\<rparr>)"

subsection \<open>Verification and reset tokens\<close>

definition getEmailVerificationToken ::
  "env \<Rightarrow> timestamp \<Rightarrow> string \<Rightarrow> document \<Rightarrow> string \<times> document" where
  "getEmailVerificationToken e now randomHex this =
     (randomHex,
      this\<lparr>doc_emailVerificationToken := Some (sha256 e randomHex),
           doc_emailVerificationExpire :=
             Some (now + EMAIL_VERIFICATION_EXPIRE e * 60 * 60 * 1000)\<rparr>)"

definition getResetPasswordToken ::
  "env \<Rightarrow> timestamp \<Rightarrow> string \<Rightarrow> document \<Rightarrow> string \<times> document" where
  "getResetPasswordToken e now randomHex this =
     (randomHex,
      this\<lparr>doc_resetPasswordToken := Some (sha256 e randomHex),
           doc_resetPasswordExpire := Some (now + RESET_PASSWORD_EXPIRE e * 60 * 1000)\<rparr>)"

section \<open>Controllers\<close>

text \<open>
  A controller returns the collection it leaves and either the failure handed to \<open>next\<close> or
  the data of its response. Without \<open>validateBeforeSave: false\<close>, \<open>save()\<close> first runs the
  schema validators and rejects with a validation error, and a modified password is
  replaced by its bcrypt hash in the pre-save hook. The result of \<open>validationResult(req)\<close>
  and the outcome of the mail delivery are inputs. The filters of \<open>register\<close> and
  \<open>forgotPassword\<close> receive an email that the validation chain has already trimmed and
  lower-cased, on which the cast of the filter is the identity.
\<close>

datatype failure = ErrorResponse string nat | ValidationError | HashError | TypeError

definition loginMessage :: "env \<Rightarrow> reason option \<Rightarrow> string" where
  "loginMessage e r =
     (case r of
        Some USER_NOT_FOUND \<Rightarrow> ''No account found with this username or email''
      | Some ACCOUNT_LOCKED \<Rightarrow>
          ''Account temporarily locked due to too many failed login attempts. Try again in ''
            @ LOCKOUT_TIME_text e @ '' minutes.''
      | Some INVALID_PASSWORD \<Rightarrow> ''Invalid password''
      | None \<Rightarrow> ''Invalid credentials'')"

definition login ::
  "env \<Rightarrow> timestamp \<Rightarrow> string list \<Rightarrow> string \<Rightarrow> string \<Rightarrow> string \<Rightarrow> db
     \<Rightarrow> db \<times> (failure + document \<times> jwt \<times> string)" where
  "login e now errors identifier pw randomHex d =
     (if errors \<noteq> [] then (d, Inl (ErrorResponse ''Validation error'' 400))
      else case getAuthenticatedUser e now identifier pw d of
        (d1, None, r) \<Rightarrow> (d1, Inl (ErrorResponse (loginMessage e r) 401))
      | (d1, Some u, r) \<Rightarrow>
          (let user1 = cleanExpiredTokens now (u\<lparr>doc_lastLogin := Some now\<rparr>);
               accessToken = getSignedJwtToken e now user1
           in case generateRefreshToken now randomHex user1 of
                Throws \<Rightarrow> (d1, Inl TypeError)
              | Returns (newToken, user2) \<Rightarrow>
                  (save [path_lastLogin, path_refreshTokens] user2 d1,
                   Inr (user2, accessToken, newToken))))"

text \<open>
  The filter of \<open>refreshToken\<close> names two dotted paths into the array \<open>refreshTokens\<close>. The
  store matches such a filter when some element has the token and some element, the same
  or another, has an expiry after now; only \<open>$elemMatch\<close> would tie both to one element.
\<close>

definition refreshTokenFilter :: "string \<Rightarrow> timestamp \<Rightarrow> user \<Rightarrow> bool" where
  "refreshTokenFilter supplied now s =
     (list_ex (\<lambda>r. token r = supplied) (refreshTokens s)
      \<and> list_ex (\<lambda>r. expiresAt r > now) (refreshTokens s))"

definition refreshToken ::
  "env \<Rightarrow> timestamp \<Rightarrow> string option \<Rightarrow> string \<Rightarrow> db \<Rightarrow> db \<times> (failure + jwt \<times> string)" where
  "refreshToken e now supplied randomHex d =
     (case supplied of
        None \<Rightarrow> (d, Inl (ErrorResponse ''Refresh token required'' 401))
      | Some t \<Rightarrow>
          if t = [] then (d, Inl (ErrorResponse ''Refresh token required'' 401))
          else (case findOne (refreshTokenFilter t now) d of
                  None \<Rightarrow> (d, Inl (ErrorResponse ''Invalid or expired refresh token'' 401))
                | Some s \<Rightarrow>
                    (let u = hydrate s;
                         accessToken = getSignedJwtToken e now u
                     in case removeRefreshToken t u of
                          Throws \<Rightarrow> (d, Inl TypeError)
                        | Returns user1 \<Rightarrow>
                            (case generateRefreshToken now randomHex user1 of
                               Throws \<Rightarrow> (d, Inl TypeError)
                             | Returns (newRefreshToken, user2) \<Rightarrow>
                                 (save [path_refreshTokens] user2 d,
                                  Inr (accessToken, newRefreshToken))))))"








text \<open>
  \<open>User.create\<close>: the schema defaults, the validators, the hashing hook, then the insert.
  The new \<open>_id\<close> is an input. The document returned is the one built in memory, with every
  path.
\<close>

definition User_create ::
  "env \<Rightarrow> nat \<Rightarrow> string \<Rightarrow> string \<Rightarrow> string \<Rightarrow> db \<Rightarrow> failure + document \<times> db" where
  "User_create e newId un em pw d =
     (let this = \<lparr>doc_id = newId, doc_username = Some un, doc_email = Some em,
                  doc_password = Some pw, doc_role = Some ''user'',
                  doc_emailVerificationToken = None, doc_emailVerificationExpire = None,
                  doc_resetPasswordToken = None, doc_resetPasswordExpire = None,
                  doc_loginAttempts = Some 0, doc_lockUntil = None,
                  doc_refreshTokens = Some [], doc_isActive = Some True,
                  doc_emailVerified = Some False, doc_lastLogin = None\<rparr>
      in if \<not> schema_validate e this then Inl ValidationError
         else case bcrypt_hash e pw of
           Throws \<Rightarrow> Inl HashError
         | Returns h \<Rightarrow>
             Inr (this\<lparr>doc_password := Some h\<rparr>,
                  d @ [\<lparr>uid = newId, username = un, email = em, password = h, role = ''user'',
                        emailVerificationToken = None, emailVerificationExpire = None,
                        resetPasswordToken = None, resetPasswordExpire = None,
                        loginAttempts = Some 0, lockUntil = None, refreshTokens = [],
                        isActive = True, emailVerified = False, lastLogin = None\<rparr>]))"

text \<open>
  In \<open>register\<close> the issue of the tokens stands in the \<open>try\<close> block of the mail delivery;
  whatever throws there ends in the same \<open>catch\<close> block.
\<close>

definition register ::
  "env \<Rightarrow> timestamp \<Rightarrow> string list \<Rightarrow> string \<Rightarrow> string \<Rightarrow> string \<Rightarrow> nat \<Rightarrow> string \<Rightarrow> string
     \<Rightarrow> bool \<Rightarrow> db \<Rightarrow> db \<times> (failure + document \<times> jwt \<times> string)" where
  "register e now errors un em pw newId verificationHex refreshHex mailDelivered d =
     (if errors \<noteq> [] then (d, Inl (ErrorResponse ''Validation error'' 400))
      else case findOne (\<lambda>s. email s = em \<or> username s = un) d of
        Some existingUser \<Rightarrow>
          (d, Inl (ErrorResponse
                    (if email existingUser = em then ''User with this email already exists''
                     else ''User with this username already exists'') 400))
      | None \<Rightarrow>
          (case User_create e newId un em pw d of
             Inl f \<Rightarrow> (d, Inl f)
           | Inr (u, d1) \<Rightarrow>
               (let (verificationToken, user1) = getEmailVerificationToken e now verificationHex u;
                    d2 = save [path_emailVerificationToken, path_emailVerificationExpire] user1 d1;
                    caught =
                      (save [path_emailVerificationToken, path_emailVerificationExpire]
                         (user1\<lparr>doc_emailVerificationToken := None,
                                 doc_emailVerificationExpire := None\<rparr>) d2,
                       Inl (ErrorResponse ''Email could not be sent. Please try again later.'' 500))
                in if mailDelivered
                   then (let accessToken = getSignedJwtToken e now user1
                         in case generateRefreshToken now refreshHex user1 of
                              Throws \<Rightarrow> caught
                            | Returns (newToken, user2) \<Rightarrow>
                                (save [path_refreshTokens] user2 d2,
                                 Inr (user2, accessToken, newToken)))
                   else caught)))"

definition forgotPassword ::
  "env \<Rightarrow> timestamp \<Rightarrow> string list \<Rightarrow> string \<Rightarrow> string \<Rightarrow> bool \<Rightarrow> db \<Rightarrow> db \<times> (failure + string)" where
  "forgotPassword e now errors em randomHex mailDelivered d =
     (if errors \<noteq> [] then (d, Inl (ErrorResponse ''Validation error'' 400))
      else case findOne (\<lambda>s. email s = em) d of
        None \<Rightarrow> (d, Inl (ErrorResponse ''User not found'' 404))
      | Some s \<Rightarrow>
          (let (resetToken, user1) = getResetPasswordToken e now randomHex (hydrate s);
               d1 = save [path_resetPasswordToken, path_resetPasswordExpire] user1 d
           in if mailDelivered then (d1, Inr ''Password reset email sent'')
              else (save [path_resetPasswordToken, path_resetPasswordExpire]
                      (user1\<lparr>doc_resetPasswordToken := None,
                              doc_resetPasswordExpire := None\<rparr>) d1,
                    Inl (ErrorResponse ''Email could not be sent'' 500))))"

text \<open>\<open>resendVerification\<close> works on \<open>req.user\<close>, the document that \<open>protect\<close> has loaded.\<close>

definition resendVerification ::
  "env \<Rightarrow> timestamp \<Rightarrow> document \<Rightarrow> string \<Rightarrow> bool \<Rightarrow> db \<Rightarrow> db \<times> (failure + string)" where
  "resendVerification e now u randomHex mailDelivered d =
     (if doc_emailVerified u = Some True
      then (d, Inl (ErrorResponse ''Email is already verified'' 400))
      else (let (verificationToken, user1) = getEmailVerificationToken e now randomHex u;
                d1 = save [path_emailVerificationToken, path_emailVerificationExpire] user1 d
            in if mailDelivered then (d1, Inr ''Verification email sent'')
               else (d1, Inl (ErrorResponse ''Email could not be sent'' 500))))"

section \<open>The \<open>protect\<close> middleware\<close>

text \<open>
  The request carries an \<open>Authorization\<close> header, which either starts with \<open>Bearer\<close> and a
  space and then holds a token, or does not, and an \<open>accessToken\<close> cookie. The empty string
  is the token \<open>Malformed []\<close>, which is falsy.
\<close>

datatype authorization = Bearer jwt | OtherScheme

record request =
  authorization_header :: "authorization option"
  cookie_accessToken :: "jwt option"

definition protect :: "env \<Rightarrow> timestamp \<Rightarrow> request \<Rightarrow> db \<Rightarrow> failure + document" where
  "protect e now req d =
     (let tok = (case authorization_header req of
                   Some (Bearer t) \<Rightarrow> Some t
                 | _ \<Rightarrow> (case cookie_accessToken req of
                           None \<Rightarrow> None
                         | Some t \<Rightarrow> if t = Malformed [] then None else Some t))
      in case tok of
        None \<Rightarrow> Inl (ErrorResponse ''Access denied. No token provided'' 401)
      | Some t \<Rightarrow>
          if t = Malformed [] then Inl (ErrorResponse ''Access denied. No token provided'' 401)
          else (case jwt_verify t (JWT_SECRET e) None None now of
                  Inl TokenExpiredError \<Rightarrow> Inl (ErrorResponse ''Token Expired'' 401)
                | Inl JsonWebTokenError \<Rightarrow> Inl (ErrorResponse ''Invalid Token'' 401)
                | Inl NotBeforeError \<Rightarrow> Inl (ErrorResponse ''Token verification failed'' 401)
                | Inr decoded \<Rightarrow>
                    (case findById (payload_id (body decoded)) d of
                       None \<Rightarrow> Inl (ErrorResponse ''User not found'' 404)
                     | Some s \<Rightarrow>
                         if \<not> isActive s
                         then Inl (ErrorResponse ''User account is deacrivated'' 401)
                         else Inr (hydrate s))))"

section \<open>Example configuration\<close>

text \<open>
  The values of the sample environment file, with stand-ins for the library functions:
  a hasher whose digest is the plaintext behind a fixed prefix, a digest function that
  prefixes its input, and validators that ask six characters of a password.
\<close>

definition exampleEnv :: env where
  "exampleEnv =
     \<lparr>JWT_SECRET = ''your_super_secret_jwt_key'', JWT_EXPIRE = 2592000,
      JWT_ISSUER = ''social-media-platform'', JWT_AUDIENCE = ''social-media-users'',
      RESET_PASSWORD_EXPIRE = 10, EMAIL_VERIFICATION_EXPIRE = 24,
      MAX_LOGIN_ATTEMPTS = 5, LOCKOUT_TIME = 30, LOCKOUT_TIME_text = ''30'',
      bcrypt_compare = (\<lambda>p h. Returns (h = ''$2a$'' @ p)),
      bcrypt_hash = (\<lambda>p. Returns (''$2a$'' @ p)),
      sha256 = (\<lambda>s. ''sha256:'' @ s),
      schema_validate =
        (\<lambda>this. case doc_password this of None \<Rightarrow> True | Some p \<Rightarrow> 6 \<le> length p)\<rparr>"

definition throwingEnv :: env where
  "throwingEnv = exampleEnv\<lparr>bcrypt_compare := (\<lambda>p h. Throws)\<rparr>"


definition alice :: user where
  "alice =
     \<lparr>uid = 1, username = ''alice'', email = ''alice@example.com'',
      password = ''$2a$Passw0rd!'', role = ''user'',
      emailVerificationToken = None, emailVerificationExpire = None,
      resetPasswordToken = None, resetPasswordExpire = None,
      loginAttempts = Some 0, lockUntil = None, refreshTokens = [],
      isActive = True, emailVerified = False, lastLogin = None\<rparr>"

definition bob :: user where
  "bob = alice\<lparr>uid := 2, username := ''bob'', email := ''bob@example.com''\<rparr>"

definition fiveWrong :: "(timestamp \<times> string \<times> string) list" where
  "fiveWrong = [(1000, ''alice'', ''guess1''), (2000, ''alice'', ''guess2''),
                (3000, ''alice'', ''guess3''), (4000, ''alice'', ''guess4''),
                (5000, ''alice'', ''guess5'')]"

definition lockedAlice :: user where
  "lockedAlice = alice\<lparr>loginAttempts := Some 5, lockUntil := Some 1805000\<rparr>"

definition sessions :: "refresh_token_record list" where
  "sessions = [\<lparr>token = ''aaaa'', createdAt = 0, expiresAt = 1000\<rparr>,
               \<lparr>token = ''bbbb'', createdAt = 500, expiresAt = 9000\<rparr>]"

definition twoSessions :: user where
  "twoSessions = alice\<lparr>refreshTokens := sessions\<rparr>"

definition bobSessions :: user where
  "bobSessions = bob\<lparr>refreshTokens := sessions\<rparr>"



definition bearer :: "jwt \<Rightarrow> request" where
  "bearer t = \<lparr>authorization_header = Some (Bearer t), cookie_accessToken = None\<rparr>"

definition foreignClaims :: jwt_claims where
  "foreignClaims =
     \<lparr>body = \<lparr>payload_id = 1, payload_email = Some ''alice@example.com'',
              payload_username = Some ''alice'', payload_role = Some ''user''\<rparr>,
      iss = ''another-service'', aud = ''another-audience'', iat = 0, nbf = None, exp = 1000\<rparr>"

definition idOnlyClaims :: jwt_claims where
  "idOnlyClaims =
     \<lparr>body = \<lparr>payload_id = 1, payload_email = None, payload_username = None,
              payload_role = None\<rparr>,
      iss = ''social-media-platform'', aud = ''social-media-users'', iat = 1, nbf = None,
      exp = 2592001\<rparr>"

section \<open>The lockout is not enforced\<close>

lemmas auth_defs = getAuthenticatedUser_def findOne_def identifierFilter_def trim_def isSpace_def
  toLowerCase_def hydrateAuth_def isLocked_def matchPassword_def incLoginAttempts_def
  updateOne_def attempts_def

text \<open>
  C1, C2 and C10 rest on the branch of \<open>getAuthenticatedUser\<close> that answers
  \<open>ACCOUNT_LOCKED\<close>. The document that the query loads has no \<open>lockUntil\<close>, so the branch
  is never taken.
\<close>

lemma never_locked: "\<not> isLocked now (hydrateAuth s)"
  by (simp add: isLocked_def hydrateAuth_def)

lemma run_fiveWrong: "runLogins exampleEnv fiveWrong [alice] = [lockedAlice]"
  by (simp add: fiveWrong_def lockedAlice_def alice_def exampleEnv_def auth_defs)

text \<open>
  C1. Five logins with a wrong password lock the stored account of alice until 1805000,
  thirty minutes after the fifth. A login with the correct password at 6000, inside the
  window, returns the user with no reason, and unsets the counter and the lock.
\<close>

theorem lockout_not_enforced:
  "runLogins exampleEnv fiveWrong [alice] = [lockedAlice]
   \<and> lockUntil lockedAlice = Some (5000 + LOCKOUT_TIME exampleEnv * 60 * 1000)
   \<and> getAuthenticatedUser exampleEnv 6000 ''alice'' ''Passw0rd!'' [lockedAlice]
        = ([alice\<lparr>loginAttempts := None\<rparr>], Some (hydrateAuth lockedAlice), None)"
proof -
  have "getAuthenticatedUser exampleEnv 6000 ''alice'' ''Passw0rd!'' [lockedAlice]
        = ([alice\<lparr>loginAttempts := None\<rparr>], Some (hydrateAuth lockedAlice), None)"
    by (simp add: lockedAlice_def alice_def exampleEnv_def auth_defs)
  moreover have "lockUntil lockedAlice = Some (5000 + LOCKOUT_TIME exampleEnv * 60 * 1000)"
    by (simp add: lockedAlice_def exampleEnv_def)
  ultimately show ?thesis using run_fiveWrong by simp
qed

text \<open>
  C2. No login attempt is answered with \<open>ACCOUNT_LOCKED\<close>. On the account of alice, locked
  until 1805000, the attempt at 6000 is decided by the comparison of the password: a wrong
  one is answered with \<open>INVALID_PASSWORD\<close>, the correct one returns the user.
\<close>

theorem locked_account_password_compared:
  "snd (snd (getAuthenticatedUser e now identifier pw d)) \<noteq> Some ACCOUNT_LOCKED
   \<and> lockUntil lockedAlice = Some 1805000
   \<and> snd (getAuthenticatedUser exampleEnv 6000 ''alice'' ''guess'' [lockedAlice])
        = (None, Some INVALID_PASSWORD)
   \<and> snd (getAuthenticatedUser exampleEnv 6000 ''alice'' ''Passw0rd!'' [lockedAlice])
        = (Some (hydrateAuth lockedAlice), None)"
proof -
  have "snd (snd (getAuthenticatedUser e now identifier pw d)) \<noteq> Some ACCOUNT_LOCKED"
    by (simp add: getAuthenticatedUser_def never_locked Let_def split: option.splits)
  moreover have "snd (getAuthenticatedUser exampleEnv 6000 ''alice'' ''guess'' [lockedAlice])
        = (None, Some INVALID_PASSWORD)"
    by (simp add: lockedAlice_def alice_def exampleEnv_def auth_defs)
  moreover have "snd (getAuthenticatedUser exampleEnv 6000 ''alice'' ''Passw0rd!'' [lockedAlice])
        = (Some (hydrateAuth lockedAlice), None)"
    by (simp add: lockedAlice_def alice_def exampleEnv_def auth_defs)
  ultimately show ?thesis by (simp add: lockedAlice_def)
qed


section \<open>Password verification\<close>

text \<open>
  C8, as stated, asks for the boolean \<open>false\<close> on an internal comparison failure. When
  \<open>bcrypt.compare\<close> throws, the value returned is \<open>undefined\<close>.
\<close>

theorem matchPassword_undefined_on_throw:
  "matchPassword throwingEnv (hydrateAuth alice) ''Passw0rd!'' \<noteq> JsBool False"
  by (simp add: matchPassword_def throwingEnv_def hydrateAuth_def)

text \<open>
  C8, amended. \<open>matchPassword\<close> always completes with a value. On a document that carries
  the stored digest \<open>h\<close>, the value is the boolean that \<open>bcrypt.compare\<close> returns, so
  \<open>false\<close> on a mismatch, and \<open>undefined\<close> when the comparison throws; unless the
  comparison returns \<open>true\<close> the value is falsy.
\<close>

theorem matchPassword_never_truthy_on_failure:
  "(doc_password this = Some h \<and> bcrypt_compare e pw h = Returns b
      \<longrightarrow> matchPassword e this pw = JsBool b)
   \<and> (doc_password this = Some h \<and> bcrypt_compare e pw h = Throws
      \<longrightarrow> matchPassword e this pw = JsUndefined)
   \<and> (doc_password this = Some h \<and> bcrypt_compare e pw h \<noteq> Returns True
      \<longrightarrow> \<not> truthy (matchPassword e this pw))"
proof -
  have "\<not> truthy (matchPassword e this pw)"
    if "doc_password this = Some h" "bcrypt_compare e pw h \<noteq> Returns True"
    using that by (cases "bcrypt_compare e pw h") (auto simp add: matchPassword_def)
  then show ?thesis by (simp add: matchPassword_def)
qed

theorem matchPassword_never_truthy_on_failure_witness:
  "doc_password (hydrateAuth alice) = Some ''$2a$Passw0rd!''
   \<and> bcrypt_compare throwingEnv ''Passw0rd!'' ''$2a$Passw0rd!'' = Throws
   \<and> matchPassword throwingEnv (hydrateAuth alice) ''Passw0rd!'' = JsUndefined
   \<and> \<not> truthy (matchPassword throwingEnv (hydrateAuth alice) ''Passw0rd!'')
   \<and> bcrypt_compare exampleEnv ''guess'' ''$2a$Passw0rd!'' = Returns False
   \<and> matchPassword exampleEnv (hydrateAuth alice) ''guess'' = JsBool False"
proof -
  have p: "doc_password (hydrateAuth alice) = Some ''$2a$Passw0rd!''"
    by (simp add: hydrateAuth_def alice_def)
  have t: "bcrypt_compare throwingEnv ''Passw0rd!'' ''$2a$Passw0rd!'' = Throws"
    by (simp add: throwingEnv_def)
  have f: "bcrypt_compare exampleEnv ''guess'' ''$2a$Passw0rd!'' = Returns False"
    by (simp add: exampleEnv_def)
  from matchPassword_never_truthy_on_failure
         [of "hydrateAuth alice" "''$2a$Passw0rd!''" throwingEnv "''Passw0rd!''" False]
    matchPassword_never_truthy_on_failure
         [of "hydrateAuth alice" "''$2a$Passw0rd!''" exampleEnv "''guess''" False]
  show ?thesis using p t f by simp
qed

section \<open>Queries and updates\<close>

lemma find_map_same:
  "(\<And>x. P (g x) = P x) \<Longrightarrow> find P (map g xs) = map_option g (find P xs)"
  by (induction xs) auto

lemma find_unique:
  "u \<in> set d \<Longrightarrow> P u \<Longrightarrow> \<forall>v\<in>set d. v \<noteq> u \<longrightarrow> \<not> P v \<Longrightarrow> find P d = Some u"
  by (induction d) auto

lemma find_none: "\<forall>v\<in>set d. \<not> P v \<Longrightarrow> find P d = None"
  by (simp add: find_None_iff)

lemma find_append_none: "find P xs = None \<Longrightarrow> find P (xs @ ys) = find P ys"
  by (induction xs) (auto split: if_splits)

lemma findOne_in_set: "findOne P d = Some u \<Longrightarrow> u \<in> set d"
  by (auto simp add: findOne_def find_Some_iff)


lemma findOne_updateOne:
  assumes "findOne P d = Some u" and "doc_id this = uid u" and "\<And>s. P (ops s) = P s"
  shows "findOne P (updateOne this ops d) = Some (ops u)"
proof -
  let ?g = "\<lambda>s. if uid s = doc_id this then ops s else s"
  have "\<And>x. P (?g x) = P x" using assms(3) by simp
  then have "find P (map ?g d) = map_option ?g (find P d)" by (rule find_map_same)
  with assms(1,2) show ?thesis by (simp add: findOne_def updateOne_def)
qed

lemma set_updateOne:
  assumes "distinct (map uid d)" and "u \<in> set d" and "doc_id this = uid u"
  shows "set (updateOne this ops d) = insert (ops u) (set d - {u})"
proof -
  have same: "s = u" if "s \<in> set d" "uid s = uid u" for s
    using assms(1,2) that by (meson distinct_map inj_onD)
  have g: "(if uid s = doc_id this then ops s else s) = (if s = u then ops u else s)"
    if "s \<in> set d" for s
    using same [OF that] assms(3) by auto
  have "set (updateOne this ops d) = (\<lambda>s. if s = u then ops u else s) ` set d"
    unfolding updateOne_def set_map using g by (rule image_cong [OF refl])
  also have "\<dots> = insert (ops u) (set d - {u})"
    using assms(2) by auto
  finally show ?thesis .
qed

lemma findById_unique:
  assumes "distinct (map uid d)" and "u \<in> set d"
  shows "findById (uid u) d = Some u"
proof -
  have "\<forall>v\<in>set d. v \<noteq> u \<longrightarrow> uid v \<noteq> uid u"
    using assms by (meson distinct_map inj_onD)
  then show ?thesis unfolding findById_def using assms(2) by (intro find_unique) auto
qed

lemma findById_updateOne:
  assumes "distinct (map uid d)" and "u \<in> set d" and "doc_id this = uid u"
    and "\<And>s. uid (ops s) = uid s"
  shows "findById (uid u) (updateOne this ops d) = Some (ops u)"
proof -
  have "find (\<lambda>s. uid s = uid u) d = Some u"
    using findById_unique [OF assms(1,2)] by (simp add: findById_def)
  moreover have "\<And>x. (uid (if uid x = doc_id this then ops x else x) = uid u) = (uid x = uid u)"
    using assms(4) by simp
  ultimately show ?thesis
    using find_map_same [of "\<lambda>s. uid s = uid u" "\<lambda>s. if uid s = doc_id this then ops s else s" d]
    by (simp add: findById_def updateOne_def assms(3))
qed

lemma updateOne_append_new:
  assumes "doc_id this \<notin> uid ` set d" and "uid s = doc_id this"
  shows "updateOne this ops (d @ [s]) = d @ [ops s]"
proof -
  have "map (\<lambda>x. if uid x = doc_id this then ops x else x) d = d"
    using assms(1) by (intro map_idI) (auto simp add: image_iff)
  then show ?thesis using assms(2) by (simp add: updateOne_def)
qed

lemma findById_append_new:
  assumes "i \<notin> uid ` set d" and "uid s = i"
  shows "findById i (d @ [s]) = Some s"
proof -
  have "find (\<lambda>x. uid x = i) d = None" using assms(1) by (intro find_none) auto
  then show ?thesis using assms(2) by (simp add: findById_def find_append_none)
qed

section \<open>Refresh-token rotation\<close>

lemma refreshToken_found:
  assumes "findOne (refreshTokenFilter T now) d = Some u" and "T \<noteq> []"
  shows "refreshToken e now (Some T) T' d =
     (updateOne (hydrate u)
        (\<lambda>s. s\<lparr>refreshTokens := filter (\<lambda>r. token r \<noteq> T) (refreshTokens u) @
                  [\<lparr>token = T', createdAt = now, expiresAt = now + 7 * 24 * 60 * 60 * 1000\<rparr>]\<rparr>) d,
      Inr (getSignedJwtToken e now (hydrate u), T'))"
proof -
  have "updateOne
          (hydrate u\<lparr>doc_refreshTokens :=
             Some (filter (\<lambda>r. token r \<noteq> T) (refreshTokens u) @
                  [\<lparr>token = T', createdAt = now, expiresAt = now + 7 * 24 * 60 * 60 * 1000\<rparr>])\<rparr>)
        = updateOne (hydrate u)"
    by (simp add: updateOne_def fun_eq_iff)
  then show ?thesis
    using assms
    by (simp add: refreshToken_def Let_def removeRefreshToken_def generateRefreshToken_def
        save_def hydrate_def)
qed

text \<open>
  C3, as stated, has the new token differ from the redeemed one and the second redemption
  fail. The new token is the value that the random source draws: when it draws \<open>bbbb\<close>
  again, the redeemed token \<open>bbbb\<close> is redeemed a second time. When a second account stores
  \<open>bbbb\<close> as well, the first redemption rotates the records of the first account and the
  second redemption succeeds on the other.
\<close>

theorem refresh_rotation_without_fresh_draw:
  "snd (refreshToken exampleEnv 5000 (Some ''bbbb'') ''bbbb'' [twoSessions])
     = Inr (getSignedJwtToken exampleEnv 5000 (hydrate twoSessions), ''bbbb'')
   \<and> snd (refreshToken exampleEnv 6000 (Some ''bbbb'') ''dddd''
            (fst (refreshToken exampleEnv 5000 (Some ''bbbb'') ''bbbb'' [twoSessions])))
     = Inr (getSignedJwtToken exampleEnv 6000 (hydrate twoSessions), ''dddd'')
   \<and> snd (refreshToken exampleEnv 5000 (Some ''bbbb'') ''cccc'' [twoSessions, bobSessions])
     = Inr (getSignedJwtToken exampleEnv 5000 (hydrate twoSessions), ''cccc'')
   \<and> snd (refreshToken exampleEnv 6000 (Some ''bbbb'') ''dddd''
            (fst (refreshToken exampleEnv 5000 (Some ''bbbb'') ''cccc''
                    [twoSessions, bobSessions])))
     = Inr (getSignedJwtToken exampleEnv 6000 (hydrate bobSessions), ''dddd'')"
  by (simp add: refreshToken_def refreshTokenFilter_def findOne_def twoSessions_def
      bobSessions_def sessions_def bob_def alice_def Let_def removeRefreshToken_def
      generateRefreshToken_def save_def updateOne_def hydrate_def getSignedJwtToken_def)

text \<open>
  C3, amended. In a collection with distinct ids where only the account \<open>u\<close> stores the
  token \<open>T\<close>, in a record that has not expired, redeeming \<open>T\<close> succeeds and returns the drawn
  value \<open>T'\<close> with an access token under the server secret, issued at that moment for the
  id, email, username and role of \<open>u\<close>; the account's records are then the old ones without
  those of \<open>T\<close>, followed by one new record for \<open>T'\<close>, valid seven days. If the drawn value
  differs from \<open>T\<close>, no record of \<open>T\<close> is left, and redeeming \<open>T\<close> again, at any time, fails
  and changes nothing.
\<close>

theorem refresh_rotation:
  assumes ids: "distinct (map uid d)" and mem: "u \<in> set d"
    and stored: "list_ex (\<lambda>r. token r = T \<and> expiresAt r > now) (refreshTokens u)"
    and nonempty: "T \<noteq> []"
    and only: "\<forall>v\<in>set d. v \<noteq> u \<longrightarrow> \<not> list_ex (\<lambda>r. token r = T) (refreshTokens v)"
  shows "snd (refreshToken e now (Some T) T' d)
           = Inr (Signed \<lparr>body = \<lparr>payload_id = uid u, payload_email = Some (email u),
                                   payload_username = Some (username u),
                                   payload_role = Some (role u)\<rparr>,
                           iss = JWT_ISSUER e, aud = JWT_AUDIENCE e, iat = now div 1000,
                           nbf = None, exp = now div 1000 + JWT_EXPIRE e\<rparr> (JWT_SECRET e), T')
       \<and> (\<exists>u'. findById (uid u) (fst (refreshToken e now (Some T) T' d)) = Some u'
              \<and> refreshTokens u' = filter (\<lambda>r. token r \<noteq> T) (refreshTokens u) @
                    [\<lparr>token = T', createdAt = now, expiresAt = now + 7 * 24 * 60 * 60 * 1000\<rparr>])
       \<and> (T' \<noteq> T \<longrightarrow>
             (\<exists>u'. findById (uid u) (fst (refreshToken e now (Some T) T' d)) = Some u'
                  \<and> \<not> list_ex (\<lambda>r. token r = T) (refreshTokens u'))
             \<and> refreshToken e now2 (Some T) T'' (fst (refreshToken e now (Some T) T' d))
                 = (fst (refreshToken e now (Some T) T' d),
                    Inl (ErrorResponse ''Invalid or expired refresh token'' 401)))"
proof -
  let ?new = "filter (\<lambda>r. token r \<noteq> T) (refreshTokens u) @
                    [\<lparr>token = T', createdAt = now, expiresAt = now + 7 * 24 * 60 * 60 * 1000\<rparr>]"
  let ?ops = "\<lambda>s. s\<lparr>refreshTokens := ?new\<rparr>"
  let ?d' = "updateOne (hydrate u) ?ops d"
  have Pu: "refreshTokenFilter T now u"
    using stored by (auto simp add: refreshTokenFilter_def list_ex_iff)
  have others: "\<forall>v\<in>set d. v \<noteq> u \<longrightarrow> \<not> refreshTokenFilter T now v"
    using only by (simp add: refreshTokenFilter_def)
  have found: "findOne (refreshTokenFilter T now) d = Some u"
    unfolding findOne_def using mem Pu others by (rule find_unique)
  have res: "refreshToken e now (Some T) T' d = (?d', Inr (getSignedJwtToken e now (hydrate u), T'))"
    using found nonempty by (rule refreshToken_found)
  have tok: "getSignedJwtToken e now (hydrate u)
      = Signed \<lparr>body = \<lparr>payload_id = uid u, payload_email = Some (email u),
                                   payload_username = Some (username u),
                                   payload_role = Some (role u)\<rparr>,
                           iss = JWT_ISSUER e, aud = JWT_AUDIENCE e, iat = now div 1000,
                           nbf = None, exp = now div 1000 + JWT_EXPIRE e\<rparr> (JWT_SECRET e)"
    by (simp add: getSignedJwtToken_def jwt_sign_def hydrate_def)
  have hid: "doc_id (hydrate u) = uid u" by (simp add: hydrate_def)
  have byid: "findById (uid u) ?d' = Some (?ops u)"
    using ids mem hid by (intro findById_updateOne) simp_all
  have setd': "set ?d' = insert (?ops u) (set d - {u})"
    using ids mem hid by (intro set_updateOne) simp_all
  have second: "refreshToken e now2 (Some T) T'' ?d'
       = (?d', Inl (ErrorResponse ''Invalid or expired refresh token'' 401))"
      and gone: "\<not> list_ex (\<lambda>r. token r = T) ?new"
    if freshT: "T' \<noteq> T"
  proof -
    show gone: "\<not> list_ex (\<lambda>r. token r = T) ?new"
      using freshT by (auto simp add: list_ex_iff)
    have "\<forall>v\<in>set ?d'. \<not> refreshTokenFilter T now2 v"
      unfolding setd' using only gone by (auto simp add: refreshTokenFilter_def)
    then have "findOne (refreshTokenFilter T now2) ?d' = None"
      unfolding findOne_def by (rule find_none)
    then show "refreshToken e now2 (Some T) T'' ?d'
       = (?d', Inl (ErrorResponse ''Invalid or expired refresh token'' 401))"
      using nonempty by (simp add: refreshToken_def)
  qed
  show ?thesis
    unfolding res tok using byid gone second by simp
qed

theorem refresh_rotation_witness:
  "distinct (map uid [twoSessions])
   \<and> list_ex (\<lambda>r. token r = ''bbbb'' \<and> expiresAt r > 5000) (refreshTokens twoSessions)
   \<and> snd (refreshToken exampleEnv 5000 (Some ''bbbb'') ''cccc'' [twoSessions])
        = Inr (Signed \<lparr>body = \<lparr>payload_id = 1, payload_email = Some ''alice@example.com'',
                                payload_username = Some ''alice'', payload_role = Some ''user''\<rparr>,
                        iss = ''social-media-platform'', aud = ''social-media-users'',
                        iat = 5, nbf = None, exp = 2592005\<rparr> ''your_super_secret_jwt_key'',
               ''cccc'')
   \<and> (\<exists>u'. findById (uid twoSessions)
               (fst (refreshToken exampleEnv 5000 (Some ''bbbb'') ''cccc'' [twoSessions])) = Some u'
          \<and> refreshTokens u' =
               [\<lparr>token = ''aaaa'', createdAt = 0, expiresAt = 1000\<rparr>,
                \<lparr>token = ''cccc'', createdAt = 5000, expiresAt = 604805000\<rparr>])
   \<and> snd (refreshToken exampleEnv 6000 (Some ''bbbb'') ''dddd''
             (fst (refreshToken exampleEnv 5000 (Some ''bbbb'') ''cccc'' [twoSessions])))
        = Inl (ErrorResponse ''Invalid or expired refresh token'' 401)"
proof -
  have ids: "distinct (map uid [twoSessions])" by simp
  have mem: "twoSessions \<in> set [twoSessions]" by simp
  have stored: "list_ex (\<lambda>r. token r = ''bbbb'' \<and> expiresAt r > 5000) (refreshTokens twoSessions)"
    by (simp add: twoSessions_def sessions_def)
  have only: "\<forall>v\<in>set [twoSessions]. v \<noteq> twoSessions
                \<longrightarrow> \<not> list_ex (\<lambda>r. token r = ''bbbb'') (refreshTokens v)"
    by simp
  have f: "filter (\<lambda>r. token r \<noteq> ''bbbb'') (refreshTokens twoSessions)
             = [\<lparr>token = ''aaaa'', createdAt = 0, expiresAt = 1000\<rparr>]"
    by (simp add: twoSessions_def sessions_def)
  have v: "uid twoSessions = 1" "email twoSessions = ''alice@example.com''"
      "username twoSessions = ''alice''" "role twoSessions = ''user''"
      "JWT_ISSUER exampleEnv = ''social-media-platform''"
      "JWT_AUDIENCE exampleEnv = ''social-media-users''"
      "JWT_SECRET exampleEnv = ''your_super_secret_jwt_key''"
      "5000 div 1000 + JWT_EXPIRE exampleEnv = 2592005"
    by (simp_all add: twoSessions_def alice_def exampleEnv_def)
  have fresh: "''cccc'' \<noteq> ''bbbb''" by simp
  from refresh_rotation [OF ids mem stored _ only, of exampleEnv "''cccc''" 6000 "''dddd''"]
  show ?thesis using ids stored fresh unfolding f v by auto
qed

text \<open>
  C4. An account holds the record of \<open>aaaa\<close>, expired at 1000, and the record of \<open>bbbb\<close>,
  valid until 9000. At time 5000 the redemption of \<open>aaaa\<close> succeeds: the filter finds the
  token in one element and a later expiry in the other.
\<close>

theorem refreshToken_redeems_expired_record:
  "snd (refreshToken exampleEnv 5000 (Some ''aaaa'') ''cccc'' [twoSessions])
     = Inr (getSignedJwtToken exampleEnv 5000 (hydrate twoSessions), ''cccc'')
   \<and> filter (\<lambda>r. token r = ''aaaa'') (refreshTokens twoSessions)
       = [\<lparr>token = ''aaaa'', createdAt = 0, expiresAt = 1000\<rparr>]"
  by (simp add: refreshToken_def refreshTokenFilter_def findOne_def twoSessions_def sessions_def
      alice_def Let_def removeRefreshToken_def generateRefreshToken_def save_def updateOne_def
      hydrate_def getSignedJwtToken_def)

section \<open>Verification and reset tokens\<close>






lemma updateOne_id_cong: "doc_id a = doc_id b \<Longrightarrow> updateOne a ops d = updateOne b ops d"
  by (simp add: updateOne_def)

lemma getSignedJwtToken_cong:
  "doc_id a = doc_id b \<Longrightarrow> doc_email a = doc_email b \<Longrightarrow> doc_username a = doc_username b
     \<Longrightarrow> doc_role a = doc_role b \<Longrightarrow> getSignedJwtToken e now a = getSignedJwtToken e now b"
  by (simp add: getSignedJwtToken_def)







section \<open>Successful login\<close>

lemma identifierFilter_upd [simp]:
  "identifierFilter i (s\<lparr>loginAttempts := a\<rparr>) = identifierFilter i s"
  "identifierFilter i (s\<lparr>lockUntil := l\<rparr>) = identifierFilter i s"
  "identifierFilter i (s\<lparr>lastLogin := t\<rparr>) = identifierFilter i s"
  "identifierFilter i (s\<lparr>refreshTokens := r\<rparr>) = identifierFilter i s"
  by (simp_all add: identifierFilter_def)

lemma attempts_upd [simp]:
  "attempts (s\<lparr>loginAttempts := Some n\<rparr>) = n"
  "attempts (s\<lparr>loginAttempts := None\<rparr>) = 0"
  "attempts (s\<lparr>lockUntil := l\<rparr>) = attempts s"
  "attempts (s\<lparr>lastLogin := t\<rparr>) = attempts s"
  "attempts (s\<lparr>refreshTokens := r\<rparr>) = attempts s"
  by (simp_all add: attempts_def)

text \<open>
  C6. A login request without validation errors, for an account that is found, whose lock
  is absent or has elapsed (\<open>lockUntil \<le> now\<close>), whose counter is not negative, and with a
  matching password, succeeds. Afterwards the stored counter reads zero and \<open>lastLogin\<close> is
  \<open>now\<close>; if the counter was greater than zero, both \<open>loginAttempts\<close> and \<open>lockUntil\<close> are
  absent from the stored document.
\<close>

theorem successful_login_resets_lockout:
  assumes valid: "errors = []"
    and found: "findOne (identifierFilter i) d = Some u"
    and elapsed: "case lockUntil u of None \<Rightarrow> True | Some l \<Rightarrow> l \<le> now"
    and nonneg: "0 \<le> attempts u"
    and match: "truthy (matchPassword e (hydrateAuth u) pw)"
  shows "(\<exists>r. snd (login e now errors i pw randomHex d) = Inr r)
       \<and> (\<exists>u'. findOne (identifierFilter i) (fst (login e now errors i pw randomHex d)) = Some u'
              \<and> attempts u' = 0 \<and> lastLogin u' = Some now
              \<and> (attempts u > 0 \<longrightarrow> loginAttempts u' = None \<and> lockUntil u' = None))"
proof -
  let ?a = "hydrateAuth u"
  let ?clear = "\<lambda>s. s\<lparr>loginAttempts := None, lockUntil := None\<rparr>"
  let ?d1 = "if attempts u > 0 then updateOne ?a ?clear d else d"
  let ?u1 = "if attempts u > 0 then ?clear u else u"
  have aid: "doc_id ?a = uid u" by (simp add: hydrateAuth_def)
  have g: "getAuthenticatedUser e now i pw d = (?d1, Some ?a, None)"
    using found match
    by (simp add: getAuthenticatedUser_def never_locked Let_def) (simp add: hydrateAuth_def)
  have f1: "findOne (identifierFilter i) ?d1 = Some ?u1"
    using found findOne_updateOne [OF found aid, of ?clear] by simp
  let ?new = "[\<lparr>token = randomHex, createdAt = now, expiresAt = now + 7 * 24 * 60 * 60 * 1000\<rparr>]"
  let ?ops = "\<lambda>s. s\<lparr>lastLogin := Some now, refreshTokens := ?new\<rparr>"
  have l: "login e now errors i pw randomHex d
      = (updateOne ?a ?ops ?d1,
         Inr (?a\<lparr>doc_lastLogin := Some now, doc_refreshTokens := Some ?new\<rparr>,
              getSignedJwtToken e now ?a, randomHex))"
  proof -
    have "updateOne (?a\<lparr>doc_lastLogin := Some now, doc_refreshTokens := Some ?new\<rparr>) = updateOne ?a"
      by (intro ext updateOne_id_cong) simp
    moreover have "getSignedJwtToken e now (?a\<lparr>doc_lastLogin := Some now, doc_refreshTokens := Some []\<rparr>)
          = getSignedJwtToken e now ?a"
      by (intro getSignedJwtToken_cong) simp_all
    moreover have "doc_refreshTokens ?a = None" by (simp add: hydrateAuth_def)
    ultimately show ?thesis
      using valid g
      by (simp add: login_def Let_def cleanExpiredTokens_def generateRefreshToken_def save_def)
  qed
  have f2: "findOne (identifierFilter i) (updateOne ?a ?ops ?d1) = Some (?ops ?u1)"
    using f1 by (rule findOne_updateOne) (simp_all add: hydrateAuth_def)
  have z: "attempts (?ops ?u1) = 0"
    using nonneg by auto
  show ?thesis
    unfolding l using f2 z by auto
qed

theorem successful_login_resets_lockout_witness:
  "findOne (identifierFilter ''alice'') [lockedAlice] = Some lockedAlice
   \<and> lockUntil lockedAlice = Some 1805000 \<and> attempts lockedAlice = 5
   \<and> truthy (matchPassword exampleEnv (hydrateAuth lockedAlice) ''Passw0rd!'')
   \<and> (\<exists>r. snd (login exampleEnv 1805000 [] ''alice'' ''Passw0rd!'' ''cccc'' [lockedAlice]) = Inr r)
   \<and> (\<exists>u'. findOne (identifierFilter ''alice'')
               (fst (login exampleEnv 1805000 [] ''alice'' ''Passw0rd!'' ''cccc'' [lockedAlice])) = Some u'
          \<and> attempts u' = 0 \<and> lastLogin u' = Some 1805000
          \<and> loginAttempts u' = None \<and> lockUntil u' = None)"
proof -
  have found: "findOne (identifierFilter ''alice'') [lockedAlice] = Some lockedAlice"
    by (simp add: findOne_def identifierFilter_def trim_def isSpace_def lockedAlice_def alice_def)
  have l: "lockUntil lockedAlice = Some 1805000" by (simp add: lockedAlice_def)
  have elapsed: "case lockUntil lockedAlice of None \<Rightarrow> True | Some l \<Rightarrow> l \<le> 1805000"
    by (simp add: l)
  have a: "attempts lockedAlice = 5" by (simp add: attempts_def lockedAlice_def)
  have nonneg: "0 \<le> attempts lockedAlice" by (simp add: a)
  have match: "truthy (matchPassword exampleEnv (hydrateAuth lockedAlice) ''Passw0rd!'')"
    by (simp add: matchPassword_def exampleEnv_def hydrateAuth_def lockedAlice_def alice_def)
  from successful_login_resets_lockout [OF refl found elapsed nonneg match, of "''cccc''"]
  show ?thesis using found l a match by auto
qed

section \<open>Access tokens\<close>

text \<open>
  C7, as stated, has the verifier compare issuer and audience with the configured values,
  and every access token embed email, handle and role. A token signed with the server
  secret for the account of alice, with another issuer and another audience, passes
  \<open>protect\<close>. The access token that \<open>login\<close> returns to alice at time 1000 carries her id and
  none of the three other properties.
\<close>

theorem protect_accepts_other_issuer_and_audience:
  "protect exampleEnv 5000 (bearer (Signed foreignClaims (JWT_SECRET exampleEnv))) [alice]
     = Inr (hydrate alice)
   \<and> iss foreignClaims \<noteq> JWT_ISSUER exampleEnv
   \<and> aud foreignClaims \<noteq> JWT_AUDIENCE exampleEnv
   \<and> fst (snd (projr (snd (login exampleEnv 1000 [] ''alice'' ''Passw0rd!'' ''cccc'' [alice]))))
     = Signed idOnlyClaims (JWT_SECRET exampleEnv)"
proof -
  have "protect exampleEnv 5000 (bearer (Signed foreignClaims (JWT_SECRET exampleEnv))) [alice]
     = Inr (hydrate alice)"
    by (simp add: protect_def bearer_def jwt_verify_def foreignClaims_def findById_def alice_def
        exampleEnv_def)
  moreover have "iss foreignClaims \<noteq> JWT_ISSUER exampleEnv"
      "aud foreignClaims \<noteq> JWT_AUDIENCE exampleEnv"
    by (simp_all add: foreignClaims_def exampleEnv_def)
  moreover have "fst (snd (projr (snd (login exampleEnv 1000 [] ''alice'' ''Passw0rd!'' ''cccc'' [alice]))))
     = Signed idOnlyClaims (JWT_SECRET exampleEnv)"
    by (simp add: login_def alice_def exampleEnv_def auth_defs Let_def cleanExpiredTokens_def
        generateRefreshToken_def getSignedJwtToken_def jwt_sign_def idOnlyClaims_def)
  ultimately show ?thesis by simp
qed

lemma protect_bearer:
  "protect e now (bearer t) d =
     (if t = Malformed [] then Inl (ErrorResponse ''Access denied. No token provided'' 401)
      else (case jwt_verify t (JWT_SECRET e) None None now of
                  Inl TokenExpiredError \<Rightarrow> Inl (ErrorResponse ''Token Expired'' 401)
                | Inl JsonWebTokenError \<Rightarrow> Inl (ErrorResponse ''Invalid Token'' 401)
                | Inl NotBeforeError \<Rightarrow> Inl (ErrorResponse ''Token verification failed'' 401)
                | Inr decoded \<Rightarrow>
                    (case findById (payload_id (body decoded)) d of
                       None \<Rightarrow> Inl (ErrorResponse ''User not found'' 404)
                     | Some s \<Rightarrow>
                         if \<not> isActive s
                         then Inl (ErrorResponse ''User account is deacrivated'' 401)
                         else Inr (hydrate s))))"
  by (simp add: protect_def bearer_def)

text \<open>
  C7, amended. An access token is signed under the server secret with the configured
  issuer and audience and an expiry, and carries the id of the document it is issued from
  and the email, username and role that this document has loaded: all four for a document
  loaded without projection. \<open>protect\<close> answers \<open>Invalid Token\<close> (401) to a token signed with
  another key and to a string that is no token, \<open>Token Expired\<close> (401) to a token of the
  server whose expiry has passed, and \<open>User not found\<close> (404) to a valid token whose subject
  is not in the collection: three different failures. A valid token of an active account
  is accepted, in particular the one issued to the account until its expiry; the answer
  does not depend on the issuer and audience claims of the token.
\<close>

theorem access_token_verification:
  "getSignedJwtToken e now this =
       Signed \<lparr>body = \<lparr>payload_id = doc_id this, payload_email = doc_email this,
                       payload_username = doc_username this, payload_role = doc_role this\<rparr>,
               iss = JWT_ISSUER e, aud = JWT_AUDIENCE e, iat = now div 1000, nbf = None,
               exp = now div 1000 + JWT_EXPIRE e\<rparr> (JWT_SECRET e)
   \<and> getSignedJwtToken e now (hydrate u) =
       Signed \<lparr>body = \<lparr>payload_id = uid u, payload_email = Some (email u),
                       payload_username = Some (username u), payload_role = Some (role u)\<rparr>,
               iss = JWT_ISSUER e, aud = JWT_AUDIENCE e, iat = now div 1000, nbf = None,
               exp = now div 1000 + JWT_EXPIRE e\<rparr> (JWT_SECRET e)
   \<and> (k \<noteq> JWT_SECRET e \<longrightarrow>
        protect e now (bearer (Signed c k)) d = Inl (ErrorResponse ''Invalid Token'' 401))
   \<and> (s \<noteq> [] \<longrightarrow>
        protect e now (bearer (Malformed s)) d = Inl (ErrorResponse ''Invalid Token'' 401))
   \<and> (nbf c = None \<and> exp c \<le> now div 1000 \<longrightarrow>
        protect e now (bearer (Signed c (JWT_SECRET e))) d = Inl (ErrorResponse ''Token Expired'' 401))
   \<and> (nbf c = None \<and> now div 1000 < exp c \<and> findById (payload_id (body c)) d = None \<longrightarrow>
        protect e now (bearer (Signed c (JWT_SECRET e))) d = Inl (ErrorResponse ''User not found'' 404))
   \<and> (nbf c = None \<and> now div 1000 < exp c \<and> findById (payload_id (body c)) d = Some v
        \<and> isActive v \<longrightarrow>
        protect e now (bearer (Signed c (JWT_SECRET e))) d = Inr (hydrate v))
   \<and> (distinct (map uid d) \<and> u \<in> set d \<and> isActive u
        \<and> now' div 1000 < now div 1000 + JWT_EXPIRE e \<longrightarrow>
        protect e now' (bearer (getSignedJwtToken e now (hydrate u))) d = Inr (hydrate u))
   \<and> protect e now (bearer (Signed (c\<lparr>iss := x, aud := y\<rparr>) k)) d
        = protect e now (bearer (Signed c k)) d
   \<and> ErrorResponse ''Token Expired'' 401 \<noteq> ErrorResponse ''Invalid Token'' 401
   \<and> ErrorResponse ''Token Expired'' 401 \<noteq> ErrorResponse ''User not found'' 404
   \<and> ErrorResponse ''Invalid Token'' 401 \<noteq> ErrorResponse ''User not found'' 404"
proof -
  have sign: "getSignedJwtToken e now this =
       Signed \<lparr>body = \<lparr>payload_id = doc_id this, payload_email = doc_email this,
                       payload_username = doc_username this, payload_role = doc_role this\<rparr>,
               iss = JWT_ISSUER e, aud = JWT_AUDIENCE e, iat = now div 1000, nbf = None,
               exp = now div 1000 + JWT_EXPIRE e\<rparr> (JWT_SECRET e)" for this
    by (simp add: getSignedJwtToken_def jwt_sign_def)
  have full: "getSignedJwtToken e now (hydrate u) =
       Signed \<lparr>body = \<lparr>payload_id = uid u, payload_email = Some (email u),
                       payload_username = Some (username u), payload_role = Some (role u)\<rparr>,
               iss = JWT_ISSUER e, aud = JWT_AUDIENCE e, iat = now div 1000, nbf = None,
               exp = now div 1000 + JWT_EXPIRE e\<rparr> (JWT_SECRET e)"
    by (simp add: sign hydrate_def)
  have badkey: "protect e now (bearer (Signed c k)) d = Inl (ErrorResponse ''Invalid Token'' 401)"
    if "k \<noteq> JWT_SECRET e"
    using that by (simp add: protect_bearer jwt_verify_def)
  have garbage: "protect e now (bearer (Malformed s)) d = Inl (ErrorResponse ''Invalid Token'' 401)"
    if "s \<noteq> []"
    using that by (simp add: protect_bearer jwt_verify_def)
  have expired: "protect e now (bearer (Signed c (JWT_SECRET e))) d
        = Inl (ErrorResponse ''Token Expired'' 401)"
    if "nbf c = None \<and> exp c \<le> now div 1000"
    using that by (simp add: protect_bearer jwt_verify_def)
  have unknown: "protect e now (bearer (Signed c (JWT_SECRET e))) d
        = Inl (ErrorResponse ''User not found'' 404)"
    if "nbf c = None \<and> now div 1000 < exp c \<and> findById (payload_id (body c)) d = None"
    using that by (simp add: protect_bearer jwt_verify_def)
  have accepted: "protect e now (bearer (Signed c (JWT_SECRET e))) d = Inr (hydrate v)"
    if "nbf c = None \<and> now div 1000 < exp c \<and> findById (payload_id (body c)) d = Some v
        \<and> isActive v"
    using that by (simp add: protect_bearer jwt_verify_def)
  have roundtrip: "protect e now' (bearer (getSignedJwtToken e now (hydrate u))) d = Inr (hydrate u)"
    if "distinct (map uid d) \<and> u \<in> set d \<and> isActive u
        \<and> now' div 1000 < now div 1000 + JWT_EXPIRE e"
  proof -
    have "findById (uid u) d = Some u" using that by (simp add: findById_unique)
    then show ?thesis
      using that by (simp add: full protect_bearer jwt_verify_def)
  qed
  have indep: "protect e now (bearer (Signed (c\<lparr>iss := x, aud := y\<rparr>) k)) d
        = protect e now (bearer (Signed c k)) d"
    by (simp add: protect_bearer jwt_verify_def)
  show ?thesis
    using sign [of this] full badkey garbage expired unknown accepted roundtrip indep by simp
qed

theorem access_token_verification_witness:
  "protect exampleEnv 5000 (bearer (Signed foreignClaims ''another key'')) [alice]
     = Inl (ErrorResponse ''Invalid Token'' 401)
   \<and> protect exampleEnv 5000 (bearer (Malformed ''abc'')) [alice]
     = Inl (ErrorResponse ''Invalid Token'' 401)
   \<and> protect exampleEnv 2000000 (bearer (Signed foreignClaims (JWT_SECRET exampleEnv))) [alice]
     = Inl (ErrorResponse ''Token Expired'' 401)
   \<and> protect exampleEnv 5000 (bearer (Signed foreignClaims (JWT_SECRET exampleEnv))) []
     = Inl (ErrorResponse ''User not found'' 404)
   \<and> protect exampleEnv 5000 (bearer (Signed foreignClaims (JWT_SECRET exampleEnv))) [alice]
     = Inr (hydrate alice)
   \<and> protect exampleEnv 5000 (bearer (getSignedJwtToken exampleEnv 0 (hydrate alice))) [alice]
     = Inr (hydrate alice)"
proof -
  have key: "''another key'' \<noteq> JWT_SECRET exampleEnv" by (simp add: exampleEnv_def)
  have str: "''abc'' \<noteq> []" by simp
  have c: "nbf foreignClaims = None" "exp foreignClaims \<le> 2000000 div 1000"
      "5000 div 1000 < exp foreignClaims" "payload_id (body foreignClaims) = 1"
    by (simp_all add: foreignClaims_def)
  have f: "findById 1 [] = None" "findById 1 [alice] = Some alice" "isActive alice"
      "distinct (map uid [alice])" "alice \<in> set [alice]"
    by (simp_all add: findById_def alice_def)
  have t: "5000 div 1000 < 0 div 1000 + JWT_EXPIRE exampleEnv" by (simp add: exampleEnv_def)
  note a = access_token_verification [where e = exampleEnv and c = foreignClaims]
  have 1: "protect exampleEnv 5000 (bearer (Signed foreignClaims ''another key'')) [alice]
     = Inl (ErrorResponse ''Invalid Token'' 401)"
    using a [where k = "''another key''" and now = 5000 and d = "[alice]"] key by blast
  have 2: "protect exampleEnv 5000 (bearer (Malformed ''abc'')) [alice]
     = Inl (ErrorResponse ''Invalid Token'' 401)"
    using a [where s = "''abc''" and now = 5000 and d = "[alice]"] str by blast
  have 3: "protect exampleEnv 2000000 (bearer (Signed foreignClaims (JWT_SECRET exampleEnv))) [alice]
     = Inl (ErrorResponse ''Token Expired'' 401)"
    using a [where now = 2000000 and d = "[alice]"] c(1,2) by blast
  have 4: "protect exampleEnv 5000 (bearer (Signed foreignClaims (JWT_SECRET exampleEnv))) []
     = Inl (ErrorResponse ''User not found'' 404)"
    using a [where now = 5000 and d = "[]"] c(1,3,4) f(1) by simp
  have 5: "protect exampleEnv 5000 (bearer (Signed foreignClaims (JWT_SECRET exampleEnv))) [alice]
     = Inr (hydrate alice)"
    using a [where now = 5000 and d = "[alice]" and v = alice] c(1,3,4) f(2,3) by simp
  have 6: "protect exampleEnv 5000 (bearer (getSignedJwtToken exampleEnv 0 (hydrate alice))) [alice]
     = Inr (hydrate alice)"
    using a [where now = 0 and d = "[alice]" and u = alice and now' = 5000] f(3,4,5) t by blast
  from 1 2 3 4 5 6 show ?thesis by blast
qed

section \<open>Failed mail delivery\<close>

lemma register_mail_failure:
  assumes valid: "errors = []"
    and nodup: "findOne (\<lambda>s. email s = em \<or> username s = un) d = None"
    and created: "User_create e newId un em pw d = Inr c"
    and newid: "newId \<notin> uid ` set d"
  shows "\<exists>u'. register e now errors un em pw newId vhex rhex False d
           = (d @ [u'], Inl (ErrorResponse ''Email could not be sent. Please try again later.'' 500))
         \<and> uid u' = newId \<and> username u' = un \<and> email u' = em \<and> \<not> emailVerified u'
         \<and> emailVerificationToken u' = None \<and> emailVerificationExpire u' = None"
proof -
  obtain h where h: "bcrypt_hash e pw = Returns h"
    using created by (cases "bcrypt_hash e pw") (auto simp add: User_create_def Let_def split: if_splits)
  let ?s = "\<lparr>uid = newId, username = un, email = em, password = h, role = ''user'',
                 emailVerificationToken = None, emailVerificationExpire = None,
                 resetPasswordToken = None, resetPasswordExpire = None,
                 loginAttempts = Some 0, lockUntil = None, refreshTokens = [],
                 isActive = True, emailVerified = False, lastLogin = None\<rparr>"
  have "register e now errors un em pw newId vhex rhex False d
       = (d @ [?s], Inl (ErrorResponse ''Email could not be sent. Please try again later.'' 500))"
    using valid nodup created h newid
    by (auto simp add: register_def User_create_def Let_def getEmailVerificationToken_def save_def
        updateOne_append_new split: if_splits)
  then show ?thesis by (intro exI [of _ ?s]) simp
qed

lemma resendVerification_stores:
  assumes "i \<notin> uid ` set d" and "uid u = i" and "\<not> emailVerified u"
  shows "\<exists>u''. findById i (fst (resendVerification e now2 (hydrate u) vhex2 True (d @ [u]))) = Some u''
          \<and> emailVerificationToken u'' = Some (sha256 e vhex2)
          \<and> emailVerificationExpire u'' = Some (now2 + EMAIL_VERIFICATION_EXPIRE e * 60 * 60 * 1000)"
  using assms
  by (simp add: resendVerification_def Let_def getEmailVerificationToken_def save_def
      updateOne_append_new findById_append_new hydrate_def)

lemma forgotPassword_mail_failure:
  assumes valid: "errors = []" and ids: "distinct (map uid d)"
    and found: "findOne (\<lambda>s. email s = em) d = Some w"
  shows "snd (forgotPassword e now errors em rhex False d) = Inl (ErrorResponse ''Email could not be sent'' 500)
       \<and> (\<exists>w'. findById (uid w) (fst (forgotPassword e now errors em rhex False d)) = Some w'
              \<and> resetPasswordToken w' = None \<and> resetPasswordExpire w' = None)"
proof -
  let ?clr = "\<lambda>s. s\<lparr>resetPasswordToken := None, resetPasswordExpire := None\<rparr>"
  have mem: "w \<in> set d" using found by (rule findOne_in_set)
  have r: "forgotPassword e now errors em rhex False d
      = (updateOne (hydrate w) ?clr d, Inl (ErrorResponse ''Email could not be sent'' 500))"
    using valid found
    by (simp add: forgotPassword_def Let_def getResetPasswordToken_def save_def updateOne_def
        hydrate_def)
  have "findById (uid w) (updateOne (hydrate w) ?clr d) = Some (?clr w)"
    using ids mem by (intro findById_updateOne) (simp_all add: hydrate_def)
  then show ?thesis unfolding r by simp
qed

text \<open>
  C9. A registration without validation errors, for a new username and email, whose
  \<open>User.create\<close> succeeds under a fresh id, and whose verification mail is not delivered,
  answers with the error 500 and leaves the collection extended by the new account, with
  the verification digest and expiry absent; a later \<open>resendVerification\<close> for that account
  whose mail is delivered stores a new digest and expiry. A \<open>forgotPassword\<close> request whose
  mail is not delivered answers with the error 500 and leaves the reset digest and expiry
  of the account absent.
\<close>

theorem failed_delivery_rolls_back:
  "(errors = [] \<and> findOne (\<lambda>s. email s = em \<or> username s = un) d = None
      \<and> User_create e newId un em pw d = Inr c \<and> newId \<notin> uid ` set d
    \<longrightarrow> (\<exists>u'. register e now errors un em pw newId vhex rhex False d
                 = (d @ [u'],
                    Inl (ErrorResponse ''Email could not be sent. Please try again later.'' 500))
            \<and> uid u' = newId \<and> username u' = un \<and> email u' = em
            \<and> emailVerificationToken u' = None \<and> emailVerificationExpire u' = None
            \<and> (\<exists>u''. findById newId
                         (fst (resendVerification e now2 (hydrate u') vhex2 True (d @ [u'])))
                        = Some u''
                   \<and> emailVerificationToken u'' = Some (sha256 e vhex2)
                   \<and> emailVerificationExpire u''
                       = Some (now2 + EMAIL_VERIFICATION_EXPIRE e * 60 * 60 * 1000))))
   \<and> (errors = [] \<and> distinct (map uid d) \<and> findOne (\<lambda>s. email s = em2) d = Some w
    \<longrightarrow> snd (forgotPassword e now errors em2 rhex False d)
            = Inl (ErrorResponse ''Email could not be sent'' 500)
        \<and> (\<exists>w'. findById (uid w) (fst (forgotPassword e now errors em2 rhex False d)) = Some w'
               \<and> resetPasswordToken w' = None \<and> resetPasswordExpire w' = None))"
proof (intro conjI impI)
  assume a: "errors = [] \<and> findOne (\<lambda>s. email s = em \<or> username s = un) d = None
      \<and> User_create e newId un em pw d = Inr c \<and> newId \<notin> uid ` set d"
  then have a1: "errors = []"
    and a2: "findOne (\<lambda>s. email s = em \<or> username s = un) d = None"
    and a3: "User_create e newId un em pw d = Inr c" and a4: "newId \<notin> uid ` set d"
    by simp_all
  from register_mail_failure [OF a1 a2 a3 a4, of now vhex rhex]
  obtain u' where u': "register e now errors un em pw newId vhex rhex False d
           = (d @ [u'], Inl (ErrorResponse ''Email could not be sent. Please try again later.'' 500))"
      "uid u' = newId" "username u' = un" "email u' = em" "\<not> emailVerified u'"
      "emailVerificationToken u' = None" "emailVerificationExpire u' = None"
    by (elim exE conjE)
  have "\<exists>u''. findById newId (fst (resendVerification e now2 (hydrate u') vhex2 True (d @ [u']))) = Some u''
          \<and> emailVerificationToken u'' = Some (sha256 e vhex2)
          \<and> emailVerificationExpire u'' = Some (now2 + EMAIL_VERIFICATION_EXPIRE e * 60 * 60 * 1000)"
    using a u'(2,5) by (intro resendVerification_stores) simp_all
  with u' show "\<exists>u'. register e now errors un em pw newId vhex rhex False d
                 = (d @ [u'],
                    Inl (ErrorResponse ''Email could not be sent. Please try again later.'' 500))
            \<and> uid u' = newId \<and> username u' = un \<and> email u' = em
            \<and> emailVerificationToken u' = None \<and> emailVerificationExpire u' = None
            \<and> (\<exists>u''. findById newId
                         (fst (resendVerification e now2 (hydrate u') vhex2 True (d @ [u'])))
                        = Some u''
                   \<and> emailVerificationToken u'' = Some (sha256 e vhex2)
                   \<and> emailVerificationExpire u''
                       = Some (now2 + EMAIL_VERIFICATION_EXPIRE e * 60 * 60 * 1000))"
    by blast
next
  assume a: "errors = [] \<and> distinct (map uid d) \<and> findOne (\<lambda>s. email s = em2) d = Some w"
  note f = forgotPassword_mail_failure [of errors d em2 w e now rhex]
  show "snd (forgotPassword e now errors em2 rhex False d)
            = Inl (ErrorResponse ''Email could not be sent'' 500)"
    using a f by blast
  show "\<exists>w'. findById (uid w) (fst (forgotPassword e now errors em2 rhex False d)) = Some w'
               \<and> resetPasswordToken w' = None \<and> resetPasswordExpire w' = None"
    using a f by blast
qed

theorem failed_delivery_rolls_back_witness:
  "(\<exists>u'. register exampleEnv 1000 [] ''bob'' ''bob@example.com'' ''B0bPassw0rd!'' 2 ''vvvv'' ''rrrr''
            False [alice]
          = ([alice] @ [u'],
             Inl (ErrorResponse ''Email could not be sent. Please try again later.'' 500))
       \<and> uid u' = 2 \<and> username u' = ''bob'' \<and> email u' = ''bob@example.com''
       \<and> emailVerificationToken u' = None \<and> emailVerificationExpire u' = None
       \<and> (\<exists>u''. findById 2
                    (fst (resendVerification exampleEnv 9000 (hydrate u') ''wwww'' True
                            ([alice] @ [u'])))
                   = Some u''
              \<and> emailVerificationToken u'' = Some (sha256 exampleEnv ''wwww'')
              \<and> emailVerificationExpire u''
                  = Some (9000 + EMAIL_VERIFICATION_EXPIRE exampleEnv * 60 * 60 * 1000)))
   \<and> snd (forgotPassword exampleEnv 1000 [] ''alice@example.com'' ''rrrr'' False [alice])
        = Inl (ErrorResponse ''Email could not be sent'' 500)
   \<and> (\<exists>w'. findById (uid alice)
               (fst (forgotPassword exampleEnv 1000 [] ''alice@example.com'' ''rrrr'' False [alice]))
              = Some w'
          \<and> resetPasswordToken w' = None \<and> resetPasswordExpire w' = None)"
proof -
  have nodup: "findOne (\<lambda>s. email s = ''bob@example.com'' \<or> username s = ''bob'') [alice] = None"
    by (simp add: findOne_def alice_def)
  have created: "\<exists>c. User_create exampleEnv 2 ''bob'' ''bob@example.com'' ''B0bPassw0rd!'' [alice]
      = Inr c"
    by (simp add: User_create_def exampleEnv_def Let_def)
  then obtain c where c: "User_create exampleEnv 2 ''bob'' ''bob@example.com'' ''B0bPassw0rd!'' [alice]
      = Inr c" by blast
  have newid: "2 \<notin> uid ` set [alice]" by (simp add: alice_def)
  have ids: "distinct (map uid [alice])" by simp
  have found: "findOne (\<lambda>s. email s = ''alice@example.com'') [alice] = Some alice"
    by (simp add: findOne_def alice_def)
  note t = failed_delivery_rolls_back [where errors = "[]" and e = exampleEnv and d = "[alice]"
      and em = "''bob@example.com''" and un = "''bob''" and pw = "''B0bPassw0rd!''" and newId = 2
      and now = 1000 and vhex = "''vvvv''" and rhex = "''rrrr''" and ?now2.0 = 9000
      and ?vhex2.0 = "''wwww''" and ?em2.0 = "''alice@example.com''" and w = alice and c = c]
  show ?thesis
    using t nodup c newid ids found by simp
qed

end
